theory Spec2Isabelle
  imports Complex_Main "HOL-Library.Word"
begin

section \<open>Values of the program\<close>

text \<open>
  The service is \<^verbatim>\<open>src/review_service/main.py\<close>. A Python \<^verbatim>\<open>bytes\<close> value is a
  list of octets. A Python \<^verbatim>\<open>str\<close> is a sequence of Unicode code points, so it is a
  list of natural numbers here: the reply of the model and the values of the environment
  are arbitrary text, and the instruction sent to the model holds U+2013. The literals of
  the source that are plain ASCII are written through \<open>ascii\<close>.
\<close>

type_synonym byte = "8 word"
type_synonym bytes = "byte list"
type_synonym str = "nat list"

definition ascii :: "string \<Rightarrow> str" where
  "ascii s = map of_char s"

text \<open>
  The values \<open>e\<close> that \<^verbatim>\<open>except Exception as e\<close> binds, the instances of
  \<^verbatim>\<open>Exception\<close>: the class of the exception and the text \<^verbatim>\<open>str(e)\<close>. The calls of
  the libraries, which run without suspending, raise these.
\<close>

datatype exn = Exn (exn_class: string) (exn_str: str)

text \<open>
  What an \<^verbatim>\<open>await\<close> and the handler as a whole can raise: an instance of
  \<^verbatim>\<open>Exception\<close>, or a \<^verbatim>\<open>BaseException\<close> that is not one, of which the name of the
  class is kept (\<^verbatim>\<open>asyncio.CancelledError\<close> when the task of the request is cancelled
  while it waits). \<^verbatim>\<open>except Exception\<close> binds the first kind only.
\<close>

datatype raised = Exception exn | BaseException string

definition raise_exn :: "exn + 'a \<Rightarrow> raised + 'a" where
  "raise_exn r = (case r of Inl e \<Rightarrow> Inl (Exception e) | Inr x \<Rightarrow> Inr x)"

text \<open>The JSON values and the dictionaries the handlers return, keys in source order.\<close>

datatype json = JBool bool | JStr str

type_synonym dict = "(str \<times> json) list"

text \<open>
  A handler returns either a \<^verbatim>\<open>JSONResponse\<close> object, with its status and content,
  or a plain dictionary, which the framework turns into a response after the handler
  has returned.
\<close>

datatype handler_result = JSONResponse nat dict | Plain dict

text \<open>
  A JSON response renders its content as \<^verbatim>\<open>json.dumps(..., ensure_ascii=False)\<close>
  encoded as UTF-8. The encoding raises \<^verbatim>\<open>UnicodeEncodeError\<close> on a surrogate code
  point, U+D800 to U+DFFF, which a Python string can hold on its own (the text of that
  error is shortened here).
\<close>

definition utf8_encodable :: "str \<Rightarrow> bool" where
  "utf8_encodable s = list_all (\<lambda>c. c < 0xD800 \<or> 0xDFFF < c) s"

fun json_renders :: "json \<Rightarrow> bool" where
  "json_renders (JBool b) = True"
| "json_renders (JStr s) = utf8_encodable s"

definition renders :: "dict \<Rightarrow> bool" where
  "renders d = list_all (\<lambda>kv. utf8_encodable (fst kv) \<and> json_renders (snd kv)) d"

text \<open>
  \<^verbatim>\<open>JSONResponse(status_code=s, content=c)\<close>: the constructor renders the content, so
  it is the constructor that raises.
\<close>

definition JSONResponse_init :: "nat \<Rightarrow> dict \<Rightarrow> exn + handler_result" where
  "JSONResponse_init s c =
    (if renders c then Inr (JSONResponse s c)
     else Inl (Exn ''UnicodeEncodeError'' (ascii ''surrogates not allowed'')))"

text \<open>Truth value of an \<^verbatim>\<open>Optional[str]\<close>: \<^verbatim>\<open>None\<close> and \<^verbatim>\<open>""\<close> are false.\<close>

fun truthy :: "str option \<Rightarrow> bool" where
  "truthy None = False"
| "truthy (Some s) = (s \<noteq> [])"

section \<open>The collaborator\<close>

text \<open>
  The request of \<^verbatim>\<open>client.chat.completions.create\<close> and its reply, with the fields
  the handler writes and reads.
\<close>

datatype content_part = Text_part str | Image_url_part str

record chat_message =
  role :: str
  content :: "content_part list"

record chat_request =
  model :: str
  messages :: "chat_message list"
  temperature :: real

record reply_message =
  reply_content :: "str option"

record choice =
  message :: "reply_message option"

record chat_completion =
  choices :: "choice list"

record openai_client =
  create :: "chat_request \<Rightarrow> exn + chat_completion"

section \<open>Startup\<close>

type_synonym environ = "str \<rightharpoonup> str"

text \<open>\<^verbatim>\<open>os.getenv(key)\<close> and \<^verbatim>\<open>os.getenv(key, default)\<close>.\<close>

definition getenv :: "environ \<Rightarrow> str \<Rightarrow> str option" where
  "getenv env k = env k"

definition getenv_default :: "environ \<Rightarrow> str \<Rightarrow> str \<Rightarrow> str" where
  "getenv_default env k d = (case env k of None \<Rightarrow> d | Some v \<Rightarrow> v)"

text \<open>
  The module-level state: \<^verbatim>\<open>MODEL\<close>, \<^verbatim>\<open>OPENAI_API_KEY\<close> and \<^verbatim>\<open>client\<close>, set once
  when the module is loaded, together with the lines printed to the error stream.
\<close>

record config =
  MODEL :: str
  OPENAI_API_KEY :: "str option"
  client :: "openai_client option"
  startup_stderr :: "str list"

text \<open>
  Lines 19 to 28. \<open>OpenAI\<close> is the constructor of the client library, which may raise;
  \<open>env\<close> is the environment after \<^verbatim>\<open>load_dotenv()\<close>.
\<close>

definition startup :: "(str \<Rightarrow> exn + openai_client) \<Rightarrow> environ \<Rightarrow> config" where
  "startup OpenAI env =
    (let MODEL' = getenv_default env (ascii ''OPENAI_MODEL'') (ascii ''gpt-4o-mini'');
         KEY = getenv env (ascii ''OPENAI_API_KEY'');
         attempt =
           (case KEY of
              None \<Rightarrow> Inl (Exn ''RuntimeError''
                         (ascii ''OPENAI_API_KEY environment variable is not set.''))
            | Some k \<Rightarrow>
                if \<not> truthy KEY
                then Inl (Exn ''RuntimeError''
                         (ascii ''OPENAI_API_KEY environment variable is not set.''))
                else OpenAI k)
     in case attempt of
          Inr c \<Rightarrow> \<lparr>MODEL = MODEL', OPENAI_API_KEY = KEY, client = Some c, startup_stderr = []\<rparr>
        | Inl e \<Rightarrow> \<lparr>MODEL = MODEL', OPENAI_API_KEY = KEY, client = None,
                    startup_stderr =
                      [ascii ''[startup] OpenAI client not initialized: '' @ exn_str e]\<rparr>)"

section \<open>The probes\<close>

definition ping :: "config \<Rightarrow> dict" where
  "ping cfg =
    [(ascii ''ok'', JBool True),
     (ascii ''model'', JStr (MODEL cfg)),
     (ascii ''has_api_key'', JBool (truthy (OPENAI_API_KEY cfg)))]"

definition healthz :: dict where
  "healthz = [(ascii ''ok'', JBool True)]"

section \<open>Normalization\<close>

text \<open>
  The imaging library is outside the repository. Its three calls are parameters, each
  of which may raise: \<^verbatim>\<open>Image.open\<close> on the bytes, \<^verbatim>\<open>convert\<close> to a mode, and
  \<^verbatim>\<open>save\<close> in a format into a buffer whose value is then read. An image has the
  attributes \<^verbatim>\<open>format\<close> (the empty string for \<^verbatim>\<open>None\<close>) and \<^verbatim>\<open>mode\<close>.
\<close>

record 'im imaging =
  Image_open :: "bytes \<Rightarrow> exn + 'im"
  convert :: "'im \<Rightarrow> string \<Rightarrow> exn + 'im"
  save :: "'im \<Rightarrow> string \<Rightarrow> exn + bytes"
  image_format :: "'im \<Rightarrow> string"
  image_mode :: "'im \<Rightarrow> string"

text \<open>The body of the \<^verbatim>\<open>try\<close> of \<^verbatim>\<open>ensure_png\<close>.\<close>

definition reencode :: "'im imaging \<Rightarrow> bytes \<Rightarrow> exn + bytes" where
  "reencode P data =
    (case Image_open P data of
       Inl e \<Rightarrow> Inl e
     | Inr im \<Rightarrow>
        (case convert P im ''RGBA'' of
           Inl e \<Rightarrow> Inl e
         | Inr rgba \<Rightarrow> save P rgba ''PNG''))"

text \<open>\<^verbatim>\<open>ensure_png\<close>: the \<^verbatim>\<open>except Exception\<close> branch returns the argument.\<close>

definition ensure_png :: "'im imaging \<Rightarrow> bytes \<Rightarrow> exn + bytes" where
  "ensure_png P data =
    (case reencode P data of
       Inr out \<Rightarrow> Inr out
     | Inl e \<Rightarrow> Inr data)"

section \<open>Encoding for transport\<close>

text \<open>
  \<^verbatim>\<open>base64.b64encode\<close> of the standard library: three octets give four characters of
  the standard alphabet, and a last group of one or two octets is padded with \<^verbatim>\<open>=\<close>.
\<close>

definition table_b2a_base64 :: string where
  "table_b2a_base64 =
    ''ABCDEFGHIJKLMNOPQRSTUVWXYZabcdefghijklmnopqrstuvwxyz0123456789+/''"

definition b64_char :: "nat \<Rightarrow> byte" where
  "b64_char i = of_char (table_b2a_base64 ! i)"

definition b64_pad :: byte where
  "b64_pad = of_char CHR ''=''"

fun b64encode :: "bytes \<Rightarrow> bytes" where
  "b64encode (a # b # c # rest) =
     [b64_char (unat a div 4),
      b64_char ((unat a mod 4) * 16 + unat b div 16),
      b64_char ((unat b mod 16) * 4 + unat c div 64),
      b64_char (unat c mod 64)] @ b64encode rest"
| "b64encode [a, b] =
     [b64_char (unat a div 4),
      b64_char ((unat a mod 4) * 16 + unat b div 16),
      b64_char ((unat b mod 16) * 4),
      b64_pad]"
| "b64encode [a] =
     [b64_char (unat a div 4),
      b64_char ((unat a mod 4) * 16),
      b64_pad,
      b64_pad]"
| "b64encode [] = []"

text \<open>
  \<^verbatim>\<open>bytes.decode("ascii")\<close>: raises on an octet of 128 or more (the text of that error
  is shortened here), and otherwise gives the code points of the octets.
\<close>

definition decode_ascii :: "bytes \<Rightarrow> exn + str" where
  "decode_ascii bs =
    (if list_all (\<lambda>b. unat b < 128) bs then Inr (map unat bs)
     else Inl (Exn ''UnicodeDecodeError'' (ascii ''ordinal not in range(128)'')))"

text \<open>The local \<^verbatim>\<open>data_url\<close> of the handler.\<close>

definition data_url :: "str \<Rightarrow> str" where
  "data_url b64 = ascii ''data:image/png;base64,'' @ b64"

section \<open>The prompt\<close>

definition instruction :: str where
  "instruction =
    ascii ''You are an art critic. Rate this drawing from 1'' @ [0x2013] @
    ascii ''10 and provide '' @
    ascii ''three strengths and three suggestions for improvement. '' @
    ascii ''Be concise and kind. Return HTML with headings and bullet lists.''"

text \<open>The local \<^verbatim>\<open>user_content\<close> and the arguments of the call of the collaborator.\<close>

definition user_content :: "str \<Rightarrow> content_part list" where
  "user_content url = [Text_part instruction, Image_url_part url]"

definition completion_request :: "str \<Rightarrow> content_part list \<Rightarrow> chat_request" where
  "completion_request m uc =
    \<lparr>model = m, messages = [\<lparr>role = ascii ''user'', content = uc\<rparr>], temperature = 0.5\<rparr>"

section \<open>Reading the reply\<close>

text \<open>
  Lines 79 to 81: \<^verbatim>\<open>html\<close> stays \<^verbatim>\<open>None\<close> unless there is a first choice, it has a
  message, and the content of the message is a non-empty string.
\<close>

definition extract_html :: "chat_completion \<Rightarrow> str option" where
  "extract_html resp =
    (case choices resp of
       [] \<Rightarrow> None
     | c # _ \<Rightarrow>
        (case message c of
           None \<Rightarrow> None
         | Some m \<Rightarrow> if truthy (reply_content m) then reply_content m else None))"

text \<open>
  \<^verbatim>\<open>str.strip()\<close> removes the white space of Python at both ends: the code points for
  which \<^verbatim>\<open>str.isspace\<close> holds.
\<close>

definition isspace :: "nat \<Rightarrow> bool" where
  "isspace c =
    ((9 \<le> c \<and> c \<le> 13) \<or> (28 \<le> c \<and> c \<le> 32) \<or> c = 0x85 \<or> c = 0xA0 \<or> c = 0x1680 \<or>
     (0x2000 \<le> c \<and> c \<le> 0x200A) \<or> c = 0x2028 \<or> c = 0x2029 \<or> c = 0x202F \<or>
     c = 0x205F \<or> c = 0x3000)"

definition strip :: "str \<Rightarrow> str" where
  "strip s = rev (dropWhile isspace (rev (dropWhile isspace s)))"

text \<open>The opening tag of the container, and the formatted string before \<^verbatim>\<open>strip\<close>.\<close>

definition div_open :: str where
  "div_open =
    ascii ''<div style='' @ [0x22] @
    ascii ''font-family:-apple-system,Segoe UI,Roboto,Helvetica,Arial,sans-serif;'' @
    ascii ''line-height:1.45;font-size:14px;'' @ [0x22] @ ascii ''>''"

definition div_close :: str where
  "div_close = ascii ''</div>''"

definition newline_indent :: "nat \<Rightarrow> str" where
  "newline_indent n = 10 # replicate n 32"

definition wrapped :: "str \<Rightarrow> str" where
  "wrapped html =
    strip (newline_indent 8 @ div_open @ newline_indent 10 @ html @
           newline_indent 8 @ div_close @ newline_indent 8)"

section \<open>The review handler\<close>

text \<open>
  What the handler does to the outside, in order: reading the upload, calling the
  collaborator with a request, printing the trace of an exception.
\<close>

datatype event = Read_upload | Chat_create chat_request | Print_exc exn

text \<open>
  The body of the \<^verbatim>\<open>try\<close> of \<^verbatim>\<open>review\<close>, lines 51 to 91. \<open>image_read\<close> is what
  \<^verbatim>\<open>await image.read()\<close> gives when it is run: the bytes, or what it raises. The
  result is the value returned or what is raised, with the events so far.
\<close>

definition review_try ::
  "'im imaging \<Rightarrow> config \<Rightarrow> (raised + bytes) \<Rightarrow> (raised + handler_result) \<times> event list" where
  "review_try P cfg image_read =
    (case client cfg of
       None \<Rightarrow>
         (raise_exn (JSONResponse_init 500
            [(ascii ''error'',
              JStr (ascii ''OpenAI client not initialized. Check OPENAI_API_KEY.''))]), [])
     | Some cl \<Rightarrow>
        (case image_read of
           Inl x \<Rightarrow> (Inl x, [Read_upload])
         | Inr blob \<Rightarrow>
            if blob = [] then
              (raise_exn (JSONResponse_init 400
                 [(ascii ''error'', JStr (ascii ''Empty image upload.''))]), [Read_upload])
            else
              (case ensure_png P blob of
                 Inl e \<Rightarrow> (Inl (Exception e), [Read_upload])
               | Inr png \<Rightarrow>
                  (case decode_ascii (b64encode png) of
                     Inl e \<Rightarrow> (Inl (Exception e), [Read_upload])
                   | Inr b64 \<Rightarrow>
                      (let req = completion_request (MODEL cfg) (user_content (data_url b64))
                       in case create cl req of
                            Inl e \<Rightarrow> (Inl (Exception e), [Read_upload, Chat_create req])
                          | Inr resp \<Rightarrow>
                             (let html = extract_html resp
                              in if \<not> truthy html then
                                   (raise_exn (JSONResponse_init 502
                                      [(ascii ''error'',
                                        JStr (ascii ''Model returned no content.''))]),
                                    [Read_upload, Chat_create req])
                                 else
                                   (case html of
                                      None \<Rightarrow>
                                        (raise_exn (JSONResponse_init 502
                                           [(ascii ''error'',
                                             JStr (ascii ''Model returned no content.''))]),
                                         [Read_upload, Chat_create req])
                                    | Some h \<Rightarrow>
                                        (Inr (Plain [(ascii ''html'', JStr (wrapped h))]),
                                         [Read_upload, Chat_create req]))))))))"

text \<open>
  \<^verbatim>\<open>review\<close>: the \<^verbatim>\<open>except Exception as e\<close> of lines 93 to 95 prints the trace and
  constructs the response of status 500 with \<^verbatim>\<open>str(e)\<close>; that construction is
  outside the \<^verbatim>\<open>try\<close>, so what it raises leaves the handler. What is not an
  instance of \<^verbatim>\<open>Exception\<close> is not caught.
\<close>

definition review ::
  "'im imaging \<Rightarrow> config \<Rightarrow> (raised + bytes) \<Rightarrow> (raised + handler_result) \<times> event list" where
  "review P cfg image_read =
    (case review_try P cfg image_read of
       (Inr r, evs) \<Rightarrow> (Inr r, evs)
     | (Inl (Exception e), evs) \<Rightarrow>
         (raise_exn (JSONResponse_init 500 [(ascii ''error'', JStr (exn_str e))]),
          evs @ [Print_exc e])
     | (Inl (BaseException c), evs) \<Rightarrow> (Inl (BaseException c), evs))"

section \<open>The response the caller receives\<close>

text \<open>
  What the framework sends for the outcome of a handler. A \<^verbatim>\<open>JSONResponse\<close> is sent
  as it is. A plain dictionary is rendered as a JSON response of status 200; when the
  rendering raises, or when the handler raised an instance of \<^verbatim>\<open>Exception\<close>, the
  server answers with its own status 500 in plain text. When the task ends by another
  \<^verbatim>\<open>BaseException\<close>, no response is written.
\<close>

datatype http_response = Json_response nat dict | Internal_server_error | No_response

definition respond :: "raised + handler_result \<Rightarrow> http_response" where
  "respond outcome =
    (case outcome of
       Inr (JSONResponse s c) \<Rightarrow> Json_response s c
     | Inr (Plain d) \<Rightarrow> (if renders d then Json_response 200 d else Internal_server_error)
     | Inl (Exception e) \<Rightarrow> Internal_server_error
     | Inl (BaseException c) \<Rightarrow> No_response)"

fun http_status :: "http_response \<Rightarrow> nat option" where
  "http_status (Json_response s d) = Some s"
| "http_status Internal_server_error = Some 500"
| "http_status No_response = None"

section \<open>Decodable bitmaps\<close>

text \<open>
  The bytes are a decodable bitmap of a format when the library opens them as an image
  of that format and decodes the pixels, which \<^verbatim>\<open>Image.open\<close> leaves to the first
  operation on them, here the conversion. They are an RGBA bitmap of the standard format
  when, besides, the format is PNG and the mode is RGBA.
\<close>

definition decodable_as :: "'im imaging \<Rightarrow> string \<Rightarrow> bytes \<Rightarrow> bool" where
  "decodable_as P f data =
    (case Image_open P data of
       Inl e \<Rightarrow> False
     | Inr im \<Rightarrow>
         image_format P im = f \<and>
         (case convert P im ''RGBA'' of Inl e \<Rightarrow> False | Inr rgba \<Rightarrow> True))"

definition rgba_png :: "'im imaging \<Rightarrow> bytes \<Rightarrow> bool" where
  "rgba_png P data =
    (case Image_open P data of
       Inl e \<Rightarrow> False
     | Inr im \<Rightarrow>
         image_format P im = ''PNG'' \<and> image_mode P im = ''RGBA'' \<and>
         (case convert P im ''RGBA'' of Inl e \<Rightarrow> False | Inr rgba \<Rightarrow> True))"

text \<open>
  What the documentation of the imaging library promises of the two calls that write:
  a conversion gives an image of the mode asked for, and an RGBA image is saved as PNG
  without an error, into bytes that are an RGBA bitmap of that format.
\<close>

definition png_codec_laws :: "'im imaging \<Rightarrow> bool" where
  "png_codec_laws P =
    ((\<forall>im rgba. convert P im ''RGBA'' = Inr rgba \<longrightarrow> image_mode P rgba = ''RGBA'') \<and>
     (\<forall>im. image_mode P im = ''RGBA'' \<longrightarrow>
        (\<exists>out. save P im ''PNG'' = Inr out \<and> rgba_png P out)))"

section \<open>Stand-ins for the libraries\<close>

text \<open>
  Concrete libraries and collaborators on which the theorems below are run: an imaging
  library that identifies no image, a collaborator that answers every request with one
  reply, one that raises, and the two outcomes of the constructor of the client.
\<close>

definition no_image :: "unit imaging" where
  "no_image =
    \<lparr>Image_open = (\<lambda>d. Inl (Exn ''UnidentifiedImageError'' (ascii ''cannot identify image file''))),
     convert = (\<lambda>im m. Inr im),
     save = (\<lambda>im f. Inr []),
     image_format = (\<lambda>im. []),
     image_mode = (\<lambda>im. [])\<rparr>"

text \<open>
  A small codec: a file is one octet for the format and the mode (1 for PNG in RGB, 2
  for PNG in RGBA, 3 for JPEG in RGB) followed by the pixels; an image is its format,
  its mode and its pixels.
\<close>

definition tag_codec :: "(string \<times> string \<times> bytes) imaging" where
  "tag_codec =
    \<lparr>Image_open =
       (\<lambda>d. case d of
          [] \<Rightarrow> Inl (Exn ''UnidentifiedImageError'' (ascii ''cannot identify image file''))
        | t # px \<Rightarrow>
            if t = 1 then Inr (''PNG'', ''RGB'', px)
            else if t = 2 then Inr (''PNG'', ''RGBA'', px)
            else if t = 3 then Inr (''JPEG'', ''RGB'', px)
            else Inl (Exn ''UnidentifiedImageError'' (ascii ''cannot identify image file''))),
     convert = (\<lambda>im m. Inr ([], m, snd (snd im))),
     save =
       (\<lambda>im f.
          if f = ''PNG'' \<and> fst (snd im) = ''RGBA'' then Inr (2 # snd (snd im))
          else if f = ''PNG'' \<and> fst (snd im) = ''RGB'' then Inr (1 # snd (snd im))
          else Inl (Exn ''OSError'' (ascii ''cannot write mode''))),
     image_format = (\<lambda>im. fst im),
     image_mode = (\<lambda>im. fst (snd im))\<rparr>"

definition answering :: "chat_completion \<Rightarrow> openai_client" where
  "answering resp = \<lparr>create = (\<lambda>req. Inr resp)\<rparr>"


definition OpenAI_ok :: "openai_client \<Rightarrow> str \<Rightarrow> exn + openai_client" where
  "OpenAI_ok cl k = Inr cl"

definition OpenAI_raises :: "exn \<Rightarrow> str \<Rightarrow> exn + openai_client" where
  "OpenAI_raises e k = Inl e"

definition reply_with :: "str option \<Rightarrow> chat_completion" where
  "reply_with c = \<lparr>choices = [\<lparr>message = Some \<lparr>reply_content = c\<rparr>\<rparr>]\<rparr>"

definition key_env :: "str \<Rightarrow> environ" where
  "key_env k = [ascii ''OPENAI_API_KEY'' \<mapsto> k]"

definition not_an_image :: bytes where
  "not_an_image = map of_char ''not an image''"

section \<open>The encoding is ASCII\<close>

lemma table_ascii: "list_all (\<lambda>c. unat (of_char c :: byte) < 128) table_b2a_base64"
  by (simp add: table_b2a_base64_def)

lemma table_length: "length table_b2a_base64 = 64"
  by (simp add: table_b2a_base64_def)

lemma b64_char_ascii: "i < 64 \<Longrightarrow> unat (b64_char i) < 128"
  using table_ascii table_length by (simp add: b64_char_def list_all_length)

lemma b64_pad_ascii: "unat b64_pad < 128"
  by (simp add: b64_pad_def)

lemma byte_bound: "unat (a :: byte) < 256"
  using unsigned_less [of a] by simp

lemma b64encode_ascii: "list_all (\<lambda>b. unat b < 128) (b64encode bs)"
proof (induction bs rule: b64encode.induct)
  case (1 a b c rest)
  have "unat a div 4 < 64" "unat a mod 4 * 16 + unat b div 16 < 64"
       "unat b mod 16 * 4 + unat c div 64 < 64" "unat c mod 64 < 64"
    using byte_bound [of a] byte_bound [of b] byte_bound [of c] by simp_all (arith+)?
  with 1 show ?case by (simp add: b64_char_ascii)
next
  case (2 a b)
  have "unat a div 4 < 64" "unat a mod 4 * 16 + unat b div 16 < 64"
       "unat b mod 16 * 4 < 64"
    using byte_bound [of a] byte_bound [of b] by simp_all (arith+)?
  then show ?case by (simp add: b64_char_ascii b64_pad_ascii)
next
  case (3 a)
  have "unat a div 4 < 64" "unat a mod 4 * 16 < 64"
    using byte_bound [of a] by simp_all (arith+)?
  then show ?case by (simp add: b64_char_ascii b64_pad_ascii)
next
  case 4
  show ?case by simp
qed

lemma decode_b64encode: "decode_ascii (b64encode bs) = Inr (map unat (b64encode bs))"
  by (simp add: decode_ascii_def b64encode_ascii)

lemma b64encode_length: "length (b64encode bs) = 4 * ((length bs + 2) div 3)"
proof (induction bs rule: b64encode.induct)
  case (1 a b c rest)
  have "(length rest + 5) div 3 = Suc ((length rest + 2) div 3)"
    by arith
  with 1 show ?case by (simp add: add.commute)
qed simp_all

lemma b64encode_vectors:
  "map unat (b64encode (map of_char ''f'')) = ascii ''Zg==''"
  "map unat (b64encode (map of_char ''fo'')) = ascii ''Zm8=''"
  "map unat (b64encode (map of_char ''foo'')) = ascii ''Zm9v''"
  "map unat (b64encode (map of_char ''foobar'')) = ascii ''Zm9vYmFy''"
  by (simp_all add: b64_char_def b64_pad_def table_b2a_base64_def ascii_def)

lemma b64_not_an_image:
  "map unat (b64encode not_an_image) = ascii ''bm90IGFuIGltYWdl''"
  by (simp add: not_an_image_def b64_char_def table_b2a_base64_def ascii_def)

section \<open>Stripping the formatted string\<close>

lemma strip_core:
  assumes "\<not> isspace a" "\<not> isspace z" "list_all isspace l" "list_all isspace r"
  shows "strip (l @ a # m @ z # r) = a # m @ [z]"
proof -
  have l: "dropWhile isspace (l @ a # m @ z # r) = a # m @ z # r"
    using assms(1,3) by (simp add: dropWhile_append3 list_all_iff)
  have "dropWhile isspace (rev r @ z # rev m @ [a]) = z # rev m @ [a]"
    using assms(2,4) by (simp add: dropWhile_append3 list_all_iff)
  then show ?thesis by (simp add: strip_def l)
qed

lemma newline_indent_space: "list_all isspace (newline_indent n)"
  by (simp add: newline_indent_def isspace_def list_all_iff)

lemma wrapped_eq:
  "wrapped h = div_open @ newline_indent 10 @ h @ newline_indent 8 @ div_close"
proof -
  obtain m1 where o: "div_open = 60 # m1"
    by (simp add: div_open_def ascii_def)
  obtain m2 where c: "div_close = m2 @ [62]"
    by (simp add: div_close_def ascii_def)
  have "wrapped h =
    strip (newline_indent 8 @ 60 # (m1 @ newline_indent 10 @ h @ newline_indent 8 @ m2) @
           62 # newline_indent 8)"
    by (simp add: wrapped_def o c)
  also have "\<dots> = 60 # (m1 @ newline_indent 10 @ h @ newline_indent 8 @ m2) @ [62]"
    by (rule strip_core) (simp_all add: isspace_def newline_indent_space)
  finally show ?thesis by (simp add: o c)
qed

section \<open>Rendering the fixed messages\<close>

lemma ascii_encodable: "utf8_encodable (ascii s)"
proof -
  have "of_char c < (0xD800 :: nat)" for c :: char
    by (rule less_trans [OF nat_of_char_less_256]) simp
  then show ?thesis
    by (simp add: utf8_encodable_def ascii_def list_all_iff)
qed

lemma JSONResponse_init_ascii:
  "JSONResponse_init s [(ascii k, JStr (ascii v))] = Inr (JSONResponse s [(ascii k, JStr (ascii v))])"
  by (simp add: JSONResponse_init_def renders_def ascii_encodable)


lemma raise_exn_simps:
  "raise_exn (Inr x) = Inr x" "raise_exn (Inl e) = Inl (Exception e)"
  by (simp_all add: raise_exn_def)

section \<open>Normalization never raises\<close>

lemma ensure_png_cases:
  "ensure_png P data = Inr data \<or> (ensure_png P data = reencode P data \<and> (\<exists>out. reencode P data = Inr out))"
  by (simp add: ensure_png_def split: sum.splits)

lemma ensure_png_total: "\<exists>out. ensure_png P data = Inr out"
  by (simp add: ensure_png_def split: sum.splits)

lemma truthy_extract_html:
  "truthy (extract_html resp) \<longleftrightarrow>
     (\<exists>c cs m h. choices resp = c # cs \<and> message c = Some m \<and> reply_content m = Some h \<and> h \<noteq> [])"
  by (cases "choices resp") (auto simp: extract_html_def split: option.splits elim: truthy.elims)

section \<open>The branches of the handler\<close>

lemma review_try_call:
  assumes "client cfg = Some cl" "blob \<noteq> []" "ensure_png P blob = Inr png"
  shows "review_try P cfg (Inr blob) =
    (let req = completion_request (MODEL cfg) (user_content (data_url (map unat (b64encode png))))
     in case create cl req of
          Inl e \<Rightarrow> (Inl (Exception e), [Read_upload, Chat_create req])
        | Inr resp \<Rightarrow>
            (case extract_html resp of
               None \<Rightarrow> (Inr (JSONResponse 502 [(ascii ''error'', JStr (ascii ''Model returned no content.''))]), [Read_upload, Chat_create req])
             | Some h \<Rightarrow> if h = [] then (Inr (JSONResponse 502 [(ascii ''error'', JStr (ascii ''Model returned no content.''))]), [Read_upload, Chat_create req])
                 else (Inr (Plain [(ascii ''html'', JStr (wrapped h))]), [Read_upload, Chat_create req])))"
  using assms
  by (simp add: review_try_def decode_b64encode Let_def JSONResponse_init_ascii raise_exn_simps
      split: sum.splits option.splits)

lemma review_try_no_client:
  "client cfg = None \<Longrightarrow>
   review_try P cfg image_read =
     (Inr (JSONResponse 500
        [(ascii ''error'', JStr (ascii ''OpenAI client not initialized. Check OPENAI_API_KEY.''))]),
      [])"
  by (simp add: review_try_def JSONResponse_init_ascii raise_exn_simps)


lemma review_try_empty:
  "client cfg = Some cl \<Longrightarrow>
   review_try P cfg (Inr []) =
     (Inr (JSONResponse 400 [(ascii ''error'', JStr (ascii ''Empty image upload.''))]),
      [Read_upload])"
  by (simp add: review_try_def JSONResponse_init_ascii raise_exn_simps)




section \<open>Rendering the wrapped reply\<close>

lemma utf8_encodable_append:
  "utf8_encodable (a @ b) \<longleftrightarrow> utf8_encodable a \<and> utf8_encodable b"
  by (simp add: utf8_encodable_def)

lemma newline_indent_encodable: "utf8_encodable (newline_indent n)"
  by (simp add: utf8_encodable_def newline_indent_def list_all_iff)

lemma utf8_encodable_Cons:
  "utf8_encodable (c # s) \<longleftrightarrow> (c < 0xD800 \<or> 0xDFFF < c) \<and> utf8_encodable s"
  by (simp add: utf8_encodable_def)

lemma div_encodable: "utf8_encodable div_open" "utf8_encodable div_close"
  by (simp_all add: div_open_def div_close_def utf8_encodable_append utf8_encodable_Cons
      ascii_encodable)

lemma wrapped_encodable: "utf8_encodable (wrapped h) \<longleftrightarrow> utf8_encodable h"
  by (simp add: wrapped_eq utf8_encodable_append div_encodable newline_indent_encodable)

lemma renders_html: "renders [(ascii ''html'', JStr (wrapped h))] \<longleftrightarrow> utf8_encodable h"
  by (simp add: renders_def ascii_encodable wrapped_encodable)

lemma wrapped_literal:
  "wrapped h =
     ascii ''<div style='' @ [0x22] @
     ascii ''font-family:-apple-system,Segoe UI,Roboto,Helvetica,Arial,sans-serif;'' @
     ascii ''line-height:1.45;font-size:14px;'' @ [0x22] @ ascii ''>'' @
     [10] @ replicate 10 32 @ h @ [10] @ replicate 8 32 @ ascii ''</div>''"
  by (simp add: wrapped_eq div_open_def div_close_def newline_indent_def)

lemma surrogate_not_encodable: "\<not> utf8_encodable [0xD800]"
  by (simp add: utf8_encodable_def)

lemma startup_client_None:
  "client (startup OpenAI env) = None \<longleftrightarrow>
     \<not> truthy (env (ascii ''OPENAI_API_KEY'')) \<or>
     (\<exists>k e. env (ascii ''OPENAI_API_KEY'') = Some k \<and> OpenAI k = Inl e)"
  by (auto simp: startup_def getenv_def Let_def split: option.splits sum.splits)

lemma startup_key: "OPENAI_API_KEY (startup OpenAI env) = env (ascii ''OPENAI_API_KEY'')"
  by (simp add: startup_def getenv_def Let_def split: option.splits sum.splits)

lemma startup_model:
  "MODEL (startup OpenAI env) =
     getenv_default env (ascii ''OPENAI_MODEL'') (ascii ''gpt-4o-mini'')"
  by (simp add: startup_def getenv_def Let_def split: option.splits sum.splits)

lemma env_names_differ: "ascii ''OPENAI_MODEL'' \<noteq> ascii ''OPENAI_API_KEY''"
  by (simp add: ascii_def)

lemma startup_empty_env: "client (startup OpenAI Map.empty) = None"
  by (simp add: startup_client_None)

lemma startup_ok:
  "k \<noteq> [] \<Longrightarrow> client (startup (OpenAI_ok cl) (key_env k)) = Some cl"
  by (simp add: startup_def getenv_def key_env_def OpenAI_ok_def)

lemma test_key: "ascii ''sk-test'' \<noteq> []"
  by (simp add: ascii_def)


lemma no_image_falls_back: "ensure_png no_image data = Inr data"
  by (simp add: ensure_png_def reencode_def no_image_def)

lemma not_an_image_nonempty: "not_an_image \<noteq> []"
  by (simp add: not_an_image_def)

text \<open>The handler on a reply with content, whatever the content holds.\<close>

lemma review_html:
  assumes "client cfg = Some cl" and "blob \<noteq> []" and "ensure_png P blob = Inr png"
    and "create cl (completion_request (MODEL cfg)
           (user_content (data_url (map unat (b64encode png))))) = Inr resp"
    and "extract_html resp = Some h" and "h \<noteq> []"
  shows "review P cfg (Inr blob) =
    (Inr (Plain [(ascii ''html'', JStr (wrapped h))]),
     [Read_upload, Chat_create (completion_request (MODEL cfg)
        (user_content (data_url (map unat (b64encode png)))))])"
  using assms by (simp add: review_def review_try_call)


lemma ping_has_api_key:
  "map_of (ping cfg) (ascii ''has_api_key'') = Some (JBool (truthy (OPENAI_API_KEY cfg)))"
proof -
  have "ascii ''has_api_key'' \<noteq> ascii ''ok''" "ascii ''has_api_key'' \<noteq> ascii ''model''"
    by (simp_all add: ascii_def)
  then show ?thesis by (simp add: ping_def)
qed

lemma constructor_raises:
  "map_of (ping (startup (OpenAI_raises e) (key_env (ascii ''sk-test''))))
      (ascii ''has_api_key'') = Some (JBool True) \<and>
   client (startup (OpenAI_raises e) (key_env (ascii ''sk-test''))) = None"
proof -
  have "truthy (key_env (ascii ''sk-test'') (ascii ''OPENAI_API_KEY''))"
    by (simp add: key_env_def ascii_def)
  then show ?thesis
    by (simp add: ping_has_api_key startup_key startup_client_None key_env_def OpenAI_raises_def)
qed

section \<open>Re-encoding a decodable bitmap\<close>

lemma reencode_decodable:
  assumes "png_codec_laws P" and "decodable_as P f data"
  shows "\<exists>out. reencode P data = Inr out \<and> ensure_png P data = Inr out \<and> rgba_png P out"
proof -
  from assms(2) obtain im rgba where
    im: "Image_open P data = Inr im" and rgba: "convert P im ''RGBA'' = Inr rgba"
    by (auto simp: decodable_as_def split: sum.splits)
  from assms(1) rgba have "image_mode P rgba = ''RGBA''"
    unfolding png_codec_laws_def by blast
  with assms(1) obtain out where out: "save P rgba ''PNG'' = Inr out" and png: "rgba_png P out"
    unfolding png_codec_laws_def by blast
  from im rgba out have "reencode P data = Inr out"
    by (simp add: reencode_def)
  with png show ?thesis by (simp add: ensure_png_def)
qed

lemma rgba_png_decodable: "rgba_png P data \<Longrightarrow> decodable_as P ''PNG'' data"
  by (auto simp: rgba_png_def decodable_as_def split: sum.splits)

lemma tag_codec_laws: "png_codec_laws tag_codec"
  by (auto simp: png_codec_laws_def tag_codec_def rgba_png_def)

section \<open>The claims about the review handler\<close>

text \<open>
  C1. For a non-empty upload, with the client initialized, when the collaborator returns
  a reply whose first choice has a message with a non-empty content \<open>h\<close> that holds
  no surrogate code point, the caller receives a JSON response of status 200 whose only
  key is \<^verbatim>\<open>html\<close>. Its value is the opening tag of the container with the inline
  style (the font stack, line height 1.45, font size 14px), a line break and ten
  spaces, \<open>h\<close> itself, a line break and eight spaces, and the closing tag.
\<close>

theorem review_success:
  assumes "client cfg = Some cl" and "blob \<noteq> []" and "ensure_png P blob = Inr png"
    and "create cl (completion_request (MODEL cfg)
           (user_content (data_url (map unat (b64encode png))))) = Inr resp"
    and "choices resp = c # cs" and "message c = Some m"
    and "reply_content m = Some h" and "h \<noteq> []" and "utf8_encodable h"
  shows "respond (fst (review P cfg (Inr blob))) =
           Json_response 200
             [(ascii ''html'',
               JStr (ascii ''<div style='' @ [0x22] @
                 ascii ''font-family:-apple-system,Segoe UI,Roboto,Helvetica,Arial,sans-serif;'' @
                 ascii ''line-height:1.45;font-size:14px;'' @ [0x22] @ ascii ''>'' @
                 [10] @ replicate 10 32 @ h @ [10] @ replicate 8 32 @ ascii ''</div>''))]"
proof -
  have html: "extract_html resp = Some h"
    using assms(5-8) by (simp add: extract_html_def)
  have "review P cfg (Inr blob) =
    (Inr (Plain [(ascii ''html'', JStr (wrapped h))]),
     [Read_upload, Chat_create (completion_request (MODEL cfg)
        (user_content (data_url (map unat (b64encode png)))))])"
    by (rule review_html [OF assms(1-4) html assms(8)])
  then have "respond (fst (review P cfg (Inr blob))) =
      Json_response 200 [(ascii ''html'', JStr (wrapped h))]"
    using assms(9) by (simp add: respond_def renders_html)
  then show ?thesis by (simp only: wrapped_literal)
qed

theorem review_success_witness:
  "respond (fst (review no_image
       (startup (OpenAI_ok (answering (reply_with (Some (ascii ''<h2>7/10</h2>'')))))
          (key_env (ascii ''sk-test'')))
       (Inr not_an_image))) =
     Json_response 200
       [(ascii ''html'',
         JStr (ascii ''<div style='' @ [0x22] @
           ascii ''font-family:-apple-system,Segoe UI,Roboto,Helvetica,Arial,sans-serif;'' @
           ascii ''line-height:1.45;font-size:14px;'' @ [0x22] @ ascii ''>'' @
           [10] @ replicate 10 32 @ ascii ''<h2>7/10</h2>'' @ [10] @ replicate 8 32 @
           ascii ''</div>''))]"
proof -
  let ?h = "ascii ''<h2>7/10</h2>''"
  let ?m = "\<lparr>reply_content = Some ?h\<rparr>"
  let ?c = "\<lparr>message = Some ?m\<rparr>"
  let ?cl = "answering (reply_with (Some ?h))"
  let ?cfg = "startup (OpenAI_ok ?cl) (key_env (ascii ''sk-test''))"
  have 1: "client ?cfg = Some ?cl"
    using test_key by (rule startup_ok)
  have 4: "create ?cl (completion_request (MODEL ?cfg)
             (user_content (data_url (map unat (b64encode not_an_image))))) =
           Inr (reply_with (Some ?h))"
    by (simp add: answering_def)
  have 5: "choices (reply_with (Some ?h)) = ?c # []"
    by (simp add: reply_with_def)
  have 6: "message ?c = Some ?m"
    by simp
  have 7: "reply_content ?m = Some ?h"
    by simp
  have 8: "?h \<noteq> []"
    by (simp add: ascii_def)
  have 9: "utf8_encodable ?h"
    by (rule ascii_encodable)
  show ?thesis
    by (rule review_success [OF 1 not_an_image_nonempty no_image_falls_back 4 5 6 7 8 9])
qed

text \<open>
  The claim without the condition on the content fails: for a reply whose content is
  the lone surrogate U+D800 the handler returns the dictionary, the framework cannot
  render it, and the caller receives the server's own status 500.
\<close>

theorem review_surrogate_reply_counterexample:
  "fst (review no_image
       (startup (OpenAI_ok (answering (reply_with (Some [0xD800]))))
          (key_env (ascii ''sk-test'')))
       (Inr not_an_image)) =
     Inr (Plain [(ascii ''html'', JStr (wrapped [0xD800]))]) \<and>
   respond (fst (review no_image
       (startup (OpenAI_ok (answering (reply_with (Some [0xD800]))))
          (key_env (ascii ''sk-test'')))
       (Inr not_an_image))) = Internal_server_error \<and>
   http_status (respond (fst (review no_image
       (startup (OpenAI_ok (answering (reply_with (Some [0xD800]))))
          (key_env (ascii ''sk-test'')))
       (Inr not_an_image)))) \<noteq> Some 200"
proof -
  let ?cl = "answering (reply_with (Some [0xD800]))"
  let ?cfg = "startup (OpenAI_ok ?cl) (key_env (ascii ''sk-test''))"
  have 1: "client ?cfg = Some ?cl"
    using test_key by (rule startup_ok)
  have 4: "create ?cl (completion_request (MODEL ?cfg)
             (user_content (data_url (map unat (b64encode not_an_image))))) =
           Inr (reply_with (Some [0xD800]))"
    by (simp add: answering_def)
  have 5: "extract_html (reply_with (Some [0xD800])) = Some [0xD800]"
    by (simp add: extract_html_def reply_with_def)
  have "review no_image ?cfg (Inr not_an_image) =
    (Inr (Plain [(ascii ''html'', JStr (wrapped [0xD800]))]),
     [Read_upload, Chat_create (completion_request (MODEL ?cfg)
        (user_content (data_url (map unat (b64encode not_an_image)))))])"
    by (rule review_html [OF 1 not_an_image_nonempty no_image_falls_back 4 5]) simp
  then show ?thesis
    by (simp add: respond_def renders_html surrogate_not_encodable)
qed

text \<open>
  C2. An empty upload does not always give status 400: the check of the client comes
  first, so without a client the empty upload gives status 500. What holds is that,
  with the client initialized, an empty upload is read and answered with status 400 and
  the error \<^verbatim>\<open>Empty image upload.\<close>, and the collaborator is not called.
\<close>

theorem empty_upload_with_client:
  assumes "client cfg = Some cl"
  shows "review P cfg (Inr []) =
    (Inr (JSONResponse 400 [(ascii ''error'', JStr (ascii ''Empty image upload.''))]),
     [Read_upload])"
  using assms by (simp add: review_def review_try_empty)

theorem empty_upload_with_client_witness:
  "review no_image (startup (OpenAI_ok (answering (reply_with None))) (key_env (ascii ''sk-test'')))
     (Inr []) =
    (Inr (JSONResponse 400 [(ascii ''error'', JStr (ascii ''Empty image upload.''))]),
     [Read_upload])"
proof -
  have "client (startup (OpenAI_ok (answering (reply_with None))) (key_env (ascii ''sk-test''))) =
      Some (answering (reply_with None))"
    using test_key by (rule startup_ok)
  then show ?thesis by (rule empty_upload_with_client)
qed

text \<open>The upload is empty and there is no client: the status is 500, not 400.\<close>

theorem empty_upload_without_client_counterexample:
  "http_status (respond (fst
     (review no_image (startup (OpenAI_ok (answering (reply_with None))) Map.empty) (Inr [])))) =
   Some 500 \<and>
   http_status (respond (fst
     (review no_image (startup (OpenAI_ok (answering (reply_with None))) Map.empty) (Inr [])))) \<noteq>
   Some 400"
  by (simp add: review_def review_try_no_client startup_empty_env respond_def)

text \<open>
  C3. When the client is \<^verbatim>\<open>None\<close>, the handler returns status 500 with the error
  \<^verbatim>\<open>OpenAI client not initialized. Check OPENAI_API_KEY.\<close> whatever the upload is,
  and no event has happened: the upload has not been read.
\<close>

theorem review_without_client:
  assumes "client cfg = None"
  shows "review P cfg image_read =
    (Inr (JSONResponse 500
       [(ascii ''error'', JStr (ascii ''OpenAI client not initialized. Check OPENAI_API_KEY.''))]),
     [])"
  using assms by (simp add: review_def review_try_no_client)

theorem review_without_client_witness:
  "review no_image (startup (OpenAI_ok (answering (reply_with None))) Map.empty)
     (Inr not_an_image) =
    (Inr (JSONResponse 500
       [(ascii ''error'', JStr (ascii ''OpenAI client not initialized. Check OPENAI_API_KEY.''))]),
     [])"
  by (rule review_without_client) (rule startup_empty_env)




text \<open>
  C5. When the call of the collaborator returns a reply with no choice, or whose first
  choice has no message, or whose message has no content or the empty string as
  content, the handler returns status 502 with the error
  \<^verbatim>\<open>Model returned no content.\<close>.
\<close>

theorem review_no_content:
  assumes "client cfg = Some cl" and "blob \<noteq> []" and "ensure_png P blob = Inr png"
    and "create cl (completion_request (MODEL cfg)
           (user_content (data_url (map unat (b64encode png))))) = Inr resp"
    and "choices resp = [] \<or>
         (\<exists>c cs. choices resp = c # cs \<and>
            (message c = None \<or>
             (\<exists>m. message c = Some m \<and>
                (reply_content m = None \<or> reply_content m = Some []))))"
  shows "review P cfg (Inr blob) =
    (Inr (JSONResponse 502 [(ascii ''error'', JStr (ascii ''Model returned no content.''))]),
     [Read_upload, Chat_create (completion_request (MODEL cfg)
        (user_content (data_url (map unat (b64encode png)))))])"
proof -
  from assms(5) have "\<not> truthy (extract_html resp)"
    by (auto simp: truthy_extract_html)
  then have "extract_html resp = None \<or> extract_html resp = Some []"
    by (cases "extract_html resp") simp_all
  then show ?thesis
    using assms(1-4) by (auto simp: review_def review_try_call)
qed

theorem review_no_content_witness:
  "review no_image
     (startup (OpenAI_ok (answering \<lparr>choices = []\<rparr>)) (key_env (ascii ''sk-test'')))
     (Inr not_an_image) =
    (Inr (JSONResponse 502 [(ascii ''error'', JStr (ascii ''Model returned no content.''))]),
     [Read_upload, Chat_create (completion_request (ascii ''gpt-4o-mini'')
        (user_content (data_url (map unat (b64encode not_an_image)))))])"
proof -
  let ?cl = "answering \<lparr>choices = []\<rparr>"
  let ?cfg = "startup (OpenAI_ok ?cl) (key_env (ascii ''sk-test''))"
  have k: "ascii ''sk-test'' \<noteq> []" by (simp add: ascii_def)
  have m: "MODEL ?cfg = ascii ''gpt-4o-mini''"
    by (simp add: startup_model getenv_default_def key_env_def ascii_def)
  have 1: "client ?cfg = Some ?cl" using k by (rule startup_ok)
  have 4: "create ?cl (completion_request (MODEL ?cfg)
           (user_content (data_url (map unat (b64encode not_an_image))))) = Inr \<lparr>choices = []\<rparr>"
    by (simp add: answering_def)
  have 5: "choices \<lparr>choices = []\<rparr> = [] \<or>
         (\<exists>c cs. choices \<lparr>choices = []\<rparr> = c # cs \<and>
            (message c = None \<or>
             (\<exists>m. message c = Some m \<and>
                (reply_content m = None \<or> reply_content m = Some []))))"
    by simp
  show ?thesis
    using review_no_content [OF 1 not_an_image_nonempty no_image_falls_back 4 5]
    by (simp add: m)
qed

text \<open>
  C8. With the client initialized and a non-empty upload, the handler reads the upload
  and then calls the collaborator once, with the configured model, temperature 0.5 and
  one user message made of the instruction and an image reference. The reference is
  \<^verbatim>\<open>data:image/png;base64,\<close> followed by the base64 encoding of the bytes that
  \<^verbatim>\<open>ensure_png\<close> returned: the re-encoded image when the re-encoding succeeded, the
  uploaded bytes when it raised. The prefix is the same in both cases.
\<close>

theorem review_data_reference:
  assumes "client cfg = Some cl" and "blob \<noteq> []"
  shows "\<exists>png req.
           ensure_png P blob = Inr png \<and>
           (reencode P blob = Inr png \<or> (\<exists>e. reencode P blob = Inl e \<and> png = blob)) \<and>
           req =
             \<lparr>model = MODEL cfg,
              messages =
                [\<lparr>role = ascii ''user'',
                  content =
                    [Text_part instruction,
                     Image_url_part
                       (ascii ''data:image/png;base64,'' @ map unat (b64encode png))]\<rparr>],
              temperature = 0.5\<rparr> \<and>
           snd (review P cfg (Inr blob)) =
             Read_upload # Chat_create req #
             (case create cl req of Inl e \<Rightarrow> [Print_exc e] | Inr resp \<Rightarrow> [])"
proof -
  obtain png where png: "ensure_png P blob = Inr png"
    using ensure_png_total by blast
  then have alt: "reencode P blob = Inr png \<or> (\<exists>e. reencode P blob = Inl e \<and> png = blob)"
    by (auto simp: ensure_png_def split: sum.splits)
  let ?req = "completion_request (MODEL cfg) (user_content (data_url (map unat (b64encode png))))"
  have req: "?req = \<lparr>model = MODEL cfg,
                messages =
                  [\<lparr>role = ascii ''user'',
                    content =
                      [Text_part instruction,
                       Image_url_part
                         (ascii ''data:image/png;base64,'' @ map unat (b64encode png))]\<rparr>],
                temperature = 0.5\<rparr>"
    by (simp add: completion_request_def user_content_def data_url_def)
  have "snd (review P cfg (Inr blob)) =
          Read_upload # Chat_create ?req #
          (case create cl ?req of Inl e \<Rightarrow> [Print_exc e] | Inr resp \<Rightarrow> [])"
    using assms png
    by (simp add: review_def review_try_call Let_def split: sum.splits option.splits)
  with png alt req show ?thesis by metis
qed

theorem review_data_reference_witness:
  "snd (review no_image
     (startup (OpenAI_ok (answering (reply_with None))) (key_env (ascii ''sk-test'')))
     (Inr not_an_image)) =
   [Read_upload,
    Chat_create
      \<lparr>model = ascii ''gpt-4o-mini'',
       messages =
         [\<lparr>role = ascii ''user'',
           content =
             [Text_part instruction,
              Image_url_part (ascii ''data:image/png;base64,bm90IGFuIGltYWdl'')]\<rparr>],
       temperature = 0.5\<rparr>]"
proof -
  let ?cl = "answering (reply_with None)"
  let ?cfg = "startup (OpenAI_ok ?cl) (key_env (ascii ''sk-test''))"
  have k: "ascii ''sk-test'' \<noteq> []" by (simp add: ascii_def)
  have m: "MODEL ?cfg = ascii ''gpt-4o-mini''"
    by (simp add: startup_model getenv_default_def key_env_def ascii_def)
  have 1: "client ?cfg = Some ?cl" using k by (rule startup_ok)
  have answers: "create ?cl r = Inr (reply_with None)" for r
    by (simp add: answering_def)
  from review_data_reference [OF 1 not_an_image_nonempty, of no_image]
  obtain png where
    p: "ensure_png no_image not_an_image = Inr png" and
    s: "snd (review no_image ?cfg (Inr not_an_image)) =
          [Read_upload,
           Chat_create
             \<lparr>model = MODEL ?cfg,
              messages =
                [\<lparr>role = ascii ''user'',
                  content =
                    [Text_part instruction,
                     Image_url_part
                       (ascii ''data:image/png;base64,'' @ map unat (b64encode png))]\<rparr>],
              temperature = 0.5\<rparr>]"
    unfolding answers by auto
  from p have png: "png = not_an_image" by (simp add: no_image_falls_back)
  have url: "ascii ''data:image/png;base64,'' @ map unat (b64encode not_an_image) =
      ascii ''data:image/png;base64,bm90IGFuIGltYWdl''"
    by (simp add: b64_not_an_image ascii_def)
  from s show ?thesis unfolding png m url .
qed

section \<open>The claims about normalization\<close>

text \<open>
  C6. \<^verbatim>\<open>ensure_png\<close> returns bytes for every input and never raises. When the imaging
  library cannot open the bytes, and more generally when any step of the re-encoding
  raises, it returns exactly its argument.
\<close>

theorem ensure_png_fallback:
  "(\<exists>out. ensure_png P data = Inr out) \<and>
   (\<forall>e. Image_open P data = Inl e \<longrightarrow> ensure_png P data = Inr data) \<and>
   (\<forall>e. reencode P data = Inl e \<longrightarrow> ensure_png P data = Inr data)"
  by (simp add: ensure_png_def reencode_def split: sum.splits)

theorem ensure_png_fallback_witness:
  "Image_open no_image not_an_image =
     Inl (Exn ''UnidentifiedImageError'' (ascii ''cannot identify image file'')) \<and>
   ensure_png no_image not_an_image = Inr not_an_image"
proof -
  have o: "Image_open no_image not_an_image =
     Inl (Exn ''UnidentifiedImageError'' (ascii ''cannot identify image file''))"
    by (simp add: no_image_def)
  note fallback =
    ensure_png_fallback [of no_image not_an_image, THEN conjunct2, THEN conjunct1, rule_format]
  from o have "ensure_png no_image not_an_image = Inr not_an_image"
    by (rule fallback)
  with o show ?thesis by simp
qed

text \<open>
  C7. For an imaging library whose conversion gives the mode asked for and whose PNG
  writer turns an RGBA image into bytes that are an RGBA bitmap of that format: bytes
  that are a decodable bitmap in PNG are turned by \<^verbatim>\<open>ensure_png\<close> into an RGBA
  bitmap in PNG, and passing the result through \<^verbatim>\<open>ensure_png\<close> once more gives an
  RGBA bitmap in PNG again.
\<close>

theorem ensure_png_keeps_format:
  assumes "png_codec_laws P" and "decodable_as P ''PNG'' data"
  shows "\<exists>out. ensure_png P data = Inr out \<and> rgba_png P out \<and>
           (\<exists>again. ensure_png P out = Inr again \<and> rgba_png P again)"
proof -
  from reencode_decodable [OF assms] obtain out where
    out: "ensure_png P data = Inr out" and png: "rgba_png P out"
    by blast
  from png have "decodable_as P ''PNG'' out"
    by (rule rgba_png_decodable)
  from reencode_decodable [OF assms(1) this] obtain again where
    "ensure_png P out = Inr again" and "rgba_png P again"
    by blast
  with out png show ?thesis by blast
qed

theorem ensure_png_keeps_format_witness:
  "png_codec_laws tag_codec \<and> decodable_as tag_codec ''PNG'' [1, 10, 20, 30] \<and>
   ensure_png tag_codec [1, 10, 20, 30] = Inr [2, 10, 20, 30] \<and>
   rgba_png tag_codec [2, 10, 20, 30] \<and>
   ensure_png tag_codec [2, 10, 20, 30] = Inr [2, 10, 20, 30]"
proof -
  have d: "decodable_as tag_codec ''PNG'' [1, 10, 20, 30]"
    by (simp add: decodable_as_def tag_codec_def)
  have e: "ensure_png tag_codec [1, 10, 20, 30] = Inr [2, 10, 20, 30]"
    by (simp add: ensure_png_def reencode_def tag_codec_def)
  have e2: "ensure_png tag_codec [2, 10, 20, 30] = Inr [2, 10, 20, 30]"
    by (simp add: ensure_png_def reencode_def tag_codec_def)
  from ensure_png_keeps_format [OF tag_codec_laws d]
  have "rgba_png tag_codec [2, 10, 20, 30]"
    by (simp add: e)
  with tag_codec_laws d e e2 show ?thesis by simp
qed

section \<open>The claims about the status probe\<close>

text \<open>
  C9. After a startup with a non-empty credential, \<^verbatim>\<open>/ping\<close> returns the flag
  \<^verbatim>\<open>ok\<close>, the configured model identifier and \<^verbatim>\<open>has_api_key\<close> true, and the
  response for one non-empty credential equals the response for any other, whatever
  the constructor of the client does with them: the value of the credential does not
  reach the response.
\<close>

theorem ping_hides_credential:
  assumes "k1 \<noteq> []" and "k2 \<noteq> []"
  shows "ping (startup OpenAI1 (env(ascii ''OPENAI_API_KEY'' \<mapsto> k1))) =
           ping (startup OpenAI2 (env(ascii ''OPENAI_API_KEY'' \<mapsto> k2))) \<and>
         ping (startup OpenAI1 (env(ascii ''OPENAI_API_KEY'' \<mapsto> k1))) =
           [(ascii ''ok'', JBool True),
            (ascii ''model'',
             JStr (getenv_default env (ascii ''OPENAI_MODEL'') (ascii ''gpt-4o-mini''))),
            (ascii ''has_api_key'', JBool True)]"
  using assms env_names_differ
  by (simp add: ping_def startup_key startup_model getenv_default_def)

theorem ping_hides_credential_witness:
  "ping (startup (OpenAI_ok (answering (reply_with None)))
           (Map.empty(ascii ''OPENAI_API_KEY'' \<mapsto> ascii ''sk-one''))) =
   ping (startup (OpenAI_raises (Exn ''OpenAIError'' (ascii ''bad key'')))
           (Map.empty(ascii ''OPENAI_API_KEY'' \<mapsto> ascii ''sk-two''))) \<and>
   ping (startup (OpenAI_ok (answering (reply_with None)))
           (Map.empty(ascii ''OPENAI_API_KEY'' \<mapsto> ascii ''sk-one''))) =
           [(ascii ''ok'', JBool True),
            (ascii ''model'', JStr (ascii ''gpt-4o-mini'')),
            (ascii ''has_api_key'', JBool True)]"
proof -
  have 1: "ascii ''sk-one'' \<noteq> []" and 2: "ascii ''sk-two'' \<noteq> []"
    by (simp_all add: ascii_def)
  have d: "getenv_default Map.empty (ascii ''OPENAI_MODEL'') (ascii ''gpt-4o-mini'') =
      ascii ''gpt-4o-mini''"
    by (simp add: getenv_default_def)
  show ?thesis
    using ping_hides_credential [OF 1 2, of "OpenAI_ok (answering (reply_with None))" Map.empty
        "OpenAI_raises (Exn ''OpenAIError'' (ascii ''bad key''))"]
    unfolding d .
qed

text \<open>
  C10. If the startup leaves a client, \<^verbatim>\<open>/ping\<close> reports \<^verbatim>\<open>has_api_key\<close> true.
  The converse fails: with a credential present and a constructor that raises,
  \<^verbatim>\<open>has_api_key\<close> is true and there is no client.
\<close>

theorem client_implies_has_api_key:
  "(client (startup OpenAI env) \<noteq> None \<longrightarrow>
      map_of (ping (startup OpenAI env)) (ascii ''has_api_key'') = Some (JBool True)) \<and>
   \<not> (\<forall>OpenAI' env'.
        map_of (ping (startup OpenAI' env')) (ascii ''has_api_key'') = Some (JBool True) \<longrightarrow>
        client (startup OpenAI' env') \<noteq> None)"
proof (intro conjI impI)
  assume "client (startup OpenAI env) \<noteq> None"
  then have "truthy (env (ascii ''OPENAI_API_KEY''))"
    by (simp add: startup_client_None)
  then show "map_of (ping (startup OpenAI env)) (ascii ''has_api_key'') = Some (JBool True)"
    by (simp add: ping_has_api_key startup_key)
next
  show "\<not> (\<forall>OpenAI' env'.
        map_of (ping (startup OpenAI' env')) (ascii ''has_api_key'') = Some (JBool True) \<longrightarrow>
        client (startup OpenAI' env') \<noteq> None)"
    using constructor_raises [of "Exn ''OpenAIError'' (ascii ''no transport'')"] by blast
qed

theorem client_implies_has_api_key_witness:
  "client (startup (OpenAI_ok (answering (reply_with None))) (key_env (ascii ''sk-test''))) \<noteq> None \<and>
   map_of (ping (startup (OpenAI_ok (answering (reply_with None))) (key_env (ascii ''sk-test''))))
     (ascii ''has_api_key'') = Some (JBool True)"
proof -
  have "ascii ''sk-test'' \<noteq> []" by (simp add: ascii_def)
  then have c: "client (startup (OpenAI_ok (answering (reply_with None))) (key_env (ascii ''sk-test''))) \<noteq> None"
    by (simp add: startup_ok)
  note has = client_implies_has_api_key [of "OpenAI_ok (answering (reply_with None))"
      "key_env (ascii ''sk-test'')", THEN conjunct1, THEN mp, OF c]
  from c has show ?thesis by simp
qed

end
